theory Spec2Isabelle
  imports Complex_Main
begin

section \<open>Data model of \<open>src/rlpyt_algos.py\<close>\<close>

text \<open>
  Tensors of floats are modelled over the real numbers: a vector is a \<open>real list\<close>, a
  matrix a list of rows.  Batch tensors are lists indexed by the batch element; the
  time-major fields of a replay sample (\<open>[T,B]\<close>) are lists of batch vectors.
  Rounding, infinities and NaN of the float type are outside the model.  An elementwise
  operation on two tensors is a zip; a mismatch of their shapes, an error in torch, is
  not modelled, and the properties state the shapes they rely on.
\<close>

datatype py_error =
    NameError string
  | AttributeError string
  | IndexError
  | ZeroDivisionError
  | AssertionError
  | RuntimeError string

text \<open>
  The attributes of \<open>self\<close> the module reads.  \<open>prioritize_replay\<close> (line 293) is an
  attribute that no constructor of the class hierarchy assigns: \<open>None\<close> is the object as
  \<open>__init__\<close> leaves it, \<open>Some b\<close> an object on which a caller has set it by hand.
\<close>

record config =
  V_min :: real
  V_max :: real
  n_atoms :: nat
  discount :: real
  n_step_return :: nat
  double_dqn :: bool
  prioritized_replay :: bool
  prioritize_replay :: "bool option"
  mid_batch_reset :: bool
  jumps :: nat
  detach_model :: bool
  min_itr_learn :: int
  updates_per_optimize :: nat
  batch_size :: nat
  target_update_interval :: nat
  target_update_tau :: real

definition EPS :: real where
  "EPS = 1 / 1000000"

subsection \<open>Library primitives (torch)\<close>

text \<open>\<open>torch.clamp(x, lo, hi)\<close> is \<open>min(max(x, lo), hi)\<close>: where \<open>lo > hi\<close> the result is \<open>hi\<close>.\<close>

definition clamp :: "real \<Rightarrow> real \<Rightarrow> real \<Rightarrow> real" where
  "clamp x lo hi = min (max x lo) hi"

text \<open>\<open>torch.linspace(start, end, steps)\<close>: one point gives \<open>[start]\<close>.\<close>

definition linspace :: "real \<Rightarrow> real \<Rightarrow> nat \<Rightarrow> real list" where
  "linspace a b n =
     (if n = 1 then [a]
      else map (\<lambda>i. a + real i * ((b - a) / (real n - 1))) [0..<n])"

text \<open>\<open>torch.ger(u, v)\<close>, the outer product.\<close>

definition ger :: "real list \<Rightarrow> real list \<Rightarrow> real list list" where
  "ger u v = map (\<lambda>x. map (\<lambda>y. x * y) v) u"

text \<open>\<open>torch.tensordot(ps, z, dims=1)\<close> on one row: the dot product.\<close>

definition dot :: "real list \<Rightarrow> real list \<Rightarrow> real" where
  "dot p z = sum_list (map2 (*) p z)"

text \<open>\<open>torch.argmax\<close> on a vector: the index of the first maximal entry.\<close>

fun argmax_from :: "nat \<Rightarrow> real \<Rightarrow> nat \<Rightarrow> real list \<Rightarrow> nat" where
  "argmax_from best bv i [] = best"
| "argmax_from best bv i (x # xs) =
     (if bv < x then argmax_from i x (Suc i) xs else argmax_from best bv (Suc i) xs)"

definition argmax :: "real list \<Rightarrow> nat" where
  "argmax xs = (case xs of [] \<Rightarrow> 0 | x # ys \<Rightarrow> argmax_from 0 x 1 ys)"

text \<open>
  \<open>rlpyt.utils.tensor.select_at_indexes(indexes, tensor)\<close> with \<open>indexes\<close> of shape
  \<open>[B]\<close>: it asserts that the leading shapes agree and picks \<open>tensor[b, indexes[b]]\<close>.
\<close>

definition select_at_indexes :: "nat list \<Rightarrow> 'a list list \<Rightarrow> py_error + 'a list" where
  "select_at_indexes idxs t =
     (if length idxs \<noteq> length t then Inl AssertionError
      else if list_all (\<lambda>(i, row). i < length row) (zip idxs t)
        then Inr (map2 (\<lambda>i row. row ! i) idxs t)
      else Inl IndexError)"

text \<open>Indexing the time axis of a sample field; Python raises out of range.\<close>

definition index_at :: "'a list \<Rightarrow> nat \<Rightarrow> py_error + 'a" where
  "index_at xs i = (if i < length xs then Inr (xs ! i) else Inl IndexError)"

definition ebind :: "py_error + 'a \<Rightarrow> ('a \<Rightarrow> py_error + 'b) \<Rightarrow> py_error + 'b" where
  "ebind m f = (case m of Inl e \<Rightarrow> Inl e | Inr x \<Rightarrow> f x)"

subsection \<open>The categorical support and the projection (lines 66-78 and 196-208)\<close>

text \<open>
  \<open>delta_z = (self.V_max - self.V_min) / (self.agent.n_atoms - 1)\<close> is a division of Python
  numbers: it raises for a single atom.
\<close>

definition delta_z :: "config \<Rightarrow> py_error + real" where
  "delta_z cfg =
     (if n_atoms cfg = 1 then Inl ZeroDivisionError
      else Inr ((V_max cfg - V_min cfg) / (real (n_atoms cfg) - 1)))"

definition z :: "config \<Rightarrow> real list" where
  "z cfg = linspace (V_min cfg) (V_max cfg) (n_atoms cfg)"

text \<open>
  \<open>next_z\<close> after line 73 (203): the contracted support, zeroed where \<open>done_n\<close> is set,
  shifted by the return and clamped; shape \<open>[B,P']\<close>.
\<close>

definition next_z :: "config \<Rightarrow> bool list \<Rightarrow> real list \<Rightarrow> real list list" where
  "next_z cfg done_n return_n =
     (let nz = map (\<lambda>x. x * discount cfg ^ n_step_return cfg) (z cfg);
          nz = ger (map (\<lambda>d. 1 - (if d then 1 else 0)) done_n) nz
      in map2 (\<lambda>r row. map (\<lambda>x. clamp (r + x) (V_min cfg) (V_max cfg)) row) return_n nz)"

text \<open>\<open>projection_coeffs\<close> (line 78), shape \<open>[B,P,P']\<close>.\<close>

definition projection_coeffs :: "config \<Rightarrow> real \<Rightarrow> real list list \<Rightarrow> real list list list" where
  "projection_coeffs cfg dz nz =
     map (\<lambda>row. map (\<lambda>zi. map (\<lambda>x. clamp (1 - \<bar>x - zi\<bar> / dz) 0 1) row) (z cfg)) nz"

text \<open>Line 99: \<open>(target_p_unproj * projection_coeffs).sum(-1)\<close>, shape \<open>[B,P]\<close>.\<close>

definition project :: "real list list \<Rightarrow> real list list list \<Rightarrow> real list list" where
  "project unproj coeffs =
     map2 (\<lambda>u cs. map (\<lambda>c. sum_list (map2 (*) u c)) cs) unproj coeffs"

text \<open>
  Lines 88-96: the next action, from the live network's distributions under double DQN
  and from the target network's otherwise.
\<close>

definition next_a :: "config \<Rightarrow> real list list list \<Rightarrow> real list list list \<Rightarrow> nat list" where
  "next_a cfg next_ps target_ps =
     (if double_dqn cfg
      then map (\<lambda>ps. argmax (map (\<lambda>p. dot p (z cfg)) ps)) next_ps
      else map (\<lambda>ps. argmax (map (\<lambda>p. dot p (z cfg)) ps)) target_ps)"

text \<open>
  Lines 84-99 (214-229), the block under \<open>torch.no_grad()\<close>: the target network's
  distribution at the next action, projected.  \<open>target_ps\<close> and \<open>next_ps\<close> are the
  outputs \<open>[B,A,P']\<close> of the target and of the live network at the next state.
\<close>

definition target_p ::
  "config \<Rightarrow> real \<Rightarrow> bool list \<Rightarrow> real list \<Rightarrow> real list list list \<Rightarrow> real list list list
     \<Rightarrow> py_error + real list list" where
  "target_p cfg dz done_n return_n target_ps next_ps =
     (let coeffs = projection_coeffs cfg dz (next_z cfg done_n return_n) in
      ebind (select_at_indexes (next_a cfg next_ps target_ps) target_ps) (\<lambda>unproj.
        Inr (project unproj coeffs)))"

subsection \<open>Cross-entropy and KL statistic (lines 104-113 and 232-241)\<close>

definition nan_guard :: "real list list \<Rightarrow> real list list" where
  "nan_guard p = map (map (\<lambda>x. clamp x EPS 1)) p"

text \<open>Line 105: \<open>-torch.sum(target_p * torch.log(p), dim=1)\<close>, on the clamped \<open>p\<close>.\<close>

definition losses :: "real list list \<Rightarrow> real list list \<Rightarrow> real list" where
  "losses tp p = map2 (\<lambda>t q. - sum_list (map2 (\<lambda>a b. a * ln b) t q)) tp p"

text \<open>Lines 111-112 on one batch element.\<close>

definition KL_sum :: "real list \<Rightarrow> real list \<Rightarrow> real" where
  "KL_sum t q = sum_list (map2 (\<lambda>a b. a * (ln a - ln b)) t q)"

text \<open>
  Lines 110-112: the KL statistic before it is clamped; \<open>tp\<close> is the projected target
  and \<open>p\<close> the prediction after its NaN-guard.
\<close>

definition KL_pre :: "real list list \<Rightarrow> real list list \<Rightarrow> real list" where
  "KL_pre tp p = map2 KL_sum (nan_guard tp) p"

text \<open>Line 113.\<close>

definition KL_div :: "real list list \<Rightarrow> real list list \<Rightarrow> real list" where
  "KL_div tp p = map (\<lambda>k. clamp k EPS (1 / EPS)) (KL_pre tp p)"

subsection \<open>Masking (rlpyt)\<close>

text \<open>
  A tensor of rank 0 or 1: indexing a vector gives a 0-dim tensor, which cannot be sliced.
\<close>

datatype 'a tensor = T0 'a | T1 "'a list"

fun cumsum_from :: "real \<Rightarrow> real list \<Rightarrow> real list" where
  "cumsum_from acc [] = []"
| "cumsum_from acc (x # xs) = (acc + x) # cumsum_from (acc + x) xs"

definition cumsum :: "real list \<Rightarrow> real list" where
  "cumsum xs = cumsum_from 0 xs"

text \<open>
  \<open>rlpyt.algos.utils.valid_from_done(done)\<close>, along the leading axis:
  \<^verbatim>\<open>done = done.type(torch.float); valid = torch.ones_like(done)\<close>,
  \<^verbatim>\<open>valid[1:] = 1 - torch.clamp(torch.cumsum(done[:-1], dim=0), max=1)\<close>.
  The slices raise IndexError on a 0-dim tensor.
\<close>

fun valid_from_done :: "bool tensor \<Rightarrow> py_error + real list" where
  "valid_from_done (T0 d) = Inl IndexError"
| "valid_from_done (T1 ds) =
     (let done = map (\<lambda>d. if d then 1 else 0) ds;
          valid = replicate (length done) 1
      in Inr (take 1 valid @ map (\<lambda>c. 1 - min c 1) (cumsum (butlast done))))"

text \<open>
  \<open>rlpyt.utils.tensor.valid_mean(tensor, valid)\<close> is
  \<open>(tensor * valid).sum() / valid.sum()\<close>, and \<open>torch.mean\<close> the sum over the length
  (an empty batch gives NaN in torch and 0 here).
\<close>

definition valid_mean :: "real list \<Rightarrow> real list \<Rightarrow> real" where
  "valid_mean t valid = sum_list (map2 (*) t valid) / sum_list valid"

definition mean :: "real list \<Rightarrow> real" where
  "mean t = sum_list t / real (length t)"

subsection \<open>Agent and replay sample\<close>

text \<open>
  The networks are external: the agent is a record of functions on whole batches.
  \<open>forward\<close> is \<open>self.agent(...)\<close>, \<open>target\<close> is \<open>self.agent.target(...)\<close>, both of shape
  \<open>[B,A,P]\<close>; \<open>reward_predictor\<close> is \<open>self.agent.transition_model.reward_predictor\<close>.
\<close>

record ('o, 'l) agent =
  forward :: "'o \<Rightarrow> nat list \<Rightarrow> real list \<Rightarrow> real list list list"
  target :: "'o \<Rightarrow> nat list \<Rightarrow> real list \<Rightarrow> real list list list"
  stem_forward :: "'o \<Rightarrow> nat list \<Rightarrow> real list \<Rightarrow> 'l"
  head_forward :: "'l \<Rightarrow> nat list \<Rightarrow> real list \<Rightarrow> real list list list"
  step :: "'l \<Rightarrow> nat list \<Rightarrow> 'l \<times> real list list"
  reward_predictor :: "'l \<Rightarrow> real list list"

text \<open>
  A batch from the replay buffer; every field but \<open>is_weights\<close> is time-major \<open>[T,B]\<close>.
  \<open>returns\<close> is the field \<open>return_\<close> and \<open>dones\<close> the field \<open>done\<close>.
\<close>

record 'o samples =
  all_observation :: "'o list"
  all_action :: "nat list list"
  all_reward :: "real list list"
  returns :: "real list list"
  dones :: "bool list list"
  done_n :: "bool list list"
  is_weights :: "real list"

subsection \<open>From the two distributions to the loss (lines 104-122 and 232-250)\<close>

text \<open>
  Lines 115-120 (243-248).  \<open>d\<close> is the evaluation of the argument of
  \<open>valid_from_done\<close>, which happens only when \<open>mid_batch_reset\<close> is off.
\<close>

definition aggregate ::
  "config \<Rightarrow> real list \<Rightarrow> real list \<Rightarrow> py_error + bool tensor \<Rightarrow> py_error + real \<times> real list" where
  "aggregate cfg ls KL d =
     (if \<not> mid_batch_reset cfg
      then ebind d (\<lambda>d. ebind (valid_from_done d) (\<lambda>valid.
             Inr (valid_mean ls valid, map2 (*) KL valid)))
      else Inr (mean ls, KL))"

text \<open>The importance weights: the batch's vector, or the scalar \<open>1.\<close> of lines 272 and 293.\<close>

datatype weights = Vector "real list" | Scalar real

definition times_weights :: "real list \<Rightarrow> weights \<Rightarrow> real list" where
  "times_weights ls w = (case w of Vector ws \<Rightarrow> map2 (*) ls ws | Scalar c \<Rightarrow> map (\<lambda>l. l * c) ls)"

text \<open>
  Lines 104-122 (232-250): \<open>tp\<close> is the projected target \<open>[B,P]\<close>, \<open>p\<close> the live
  distribution at the action taken.
\<close>

definition distributional_loss ::
  "config \<Rightarrow> real list list \<Rightarrow> real list list \<Rightarrow> weights \<Rightarrow> py_error + bool tensor
     \<Rightarrow> py_error + real \<times> real list" where
  "distributional_loss cfg tp p w d =
     (let p = nan_guard p;
          ls = losses tp p;
          ls = (if prioritized_replay cfg then times_weights ls w else ls);
          KL = KL_div tp p
      in aggregate cfg ls KL d)"

subsection \<open>\<open>PizeroCategoricalDQN.loss\<close> (lines 58-122)\<close>

definition PizeroCategoricalDQN_loss ::
  "config \<Rightarrow> ('o, 'l) agent \<Rightarrow> 'o samples \<Rightarrow> py_error + real \<times> real list" where
  "PizeroCategoricalDQN_loss cfg ag s =
     ebind (delta_z cfg) (\<lambda>dz.
     ebind (index_at (done_n s) 1) (\<lambda>dn.
     ebind (index_at (returns s) 1) (\<lambda>ret.
     ebind (index_at (all_observation s) (n_step_return cfg + 1)) (\<lambda>obs_n.
     ebind (index_at (all_action s) (n_step_return cfg)) (\<lambda>act_n.
     ebind (index_at (all_reward s) (n_step_return cfg)) (\<lambda>rew_n.
     ebind (target_p cfg dz dn ret (target ag obs_n act_n rew_n) (forward ag obs_n act_n rew_n))
       (\<lambda>tp.
     ebind (index_at (all_observation s) 1) (\<lambda>obs1.
     ebind (index_at (all_action s) 0) (\<lambda>act0.
     ebind (index_at (all_reward s) 0) (\<lambda>rew0.
     ebind (index_at (all_action s) 1) (\<lambda>act1.
     ebind (select_at_indexes act1 (forward ag obs1 act0 rew0)) (\<lambda>p.
       distributional_loss cfg tp p (Vector (is_weights s))
         (ebind (index_at (dones s) 1) (\<lambda>d1. Inr (T1 d1)))))))))))))))"

subsection \<open>\<open>PizeroModelCategoricalDQN.rl_loss\<close> (lines 191-250)\<close>

text \<open>
  \<open>done'\<close> is the parameter \<open>done\<close>: both callers pass a vector \<open>samples.done[t]\<close>, so
  \<open>done[1]\<close> on line 244 is a 0-dim tensor.
\<close>

definition rl_loss ::
  "config \<Rightarrow> ('o, 'l) agent \<Rightarrow> 'l \<Rightarrow> nat list \<Rightarrow> real list \<Rightarrow> bool list \<Rightarrow> nat list \<Rightarrow> real list
     \<Rightarrow> 'o \<Rightarrow> nat list \<Rightarrow> real list \<Rightarrow> weights \<Rightarrow> bool list \<Rightarrow> py_error + real \<times> real list" where
  "rl_loss cfg ag latent action return_n done_n' prev_action prev_reward
       next_state next_prev_action next_prev_reward is_weights' done' =
     ebind (delta_z cfg) (\<lambda>dz.
     ebind (target_p cfg dz done_n' return_n
              (target ag next_state next_prev_action next_prev_reward)
              (forward ag next_state next_prev_action next_prev_reward)) (\<lambda>tp.
     ebind (select_at_indexes action (head_forward ag latent prev_action prev_reward)) (\<lambda>p.
       distributional_loss cfg tp p is_weights'
         (ebind (index_at done' 1) (\<lambda>d1. Inr (T0 d1))))))"

subsection \<open>\<open>PizeroModelCategoricalDQN.loss\<close> (lines 252-306)\<close>

text \<open>
  The names bound in the module's global namespace: its imports (lines 1-10) and its
  own definitions.  A name that is neither here nor a Python builtin raises NameError
  when it is read.
\<close>

definition module_globals :: "string list" where
  "module_globals =
     [''torch'', ''namedarraytuple'', ''namedtuple'', ''CategoricalDQN'',
      ''select_at_indexes'', ''valid_mean'', ''valid_from_done'',
      ''AsyncPrioritizedSequenceReplayFrameBufferExtended'',
      ''AsyncUniformSequenceReplayFrameBufferExtended'',
      ''from_categorical'', ''to_categorical'', ''SamplesToBuffer'', ''OptInfo'', ''EPS'',
      ''PizeroCategoricalDQN'', ''PizeroModelCategoricalDQN'']"

definition lookup_global :: "string \<Rightarrow> py_error + unit" where
  "lookup_global name = (if name \<in> set module_globals then Inr () else Inl (NameError name))"

text \<open>\<open>log_softmax(x, -1)\<close> on one row of logits.\<close>

definition log_softmax :: "real list \<Rightarrow> real list" where
  "log_softmax xs = map (\<lambda>x. x - ln (sum_list (map exp xs))) xs"

text \<open>Lines 280-281 and 299-300: \<open>-torch.sum(reward_target * log_softmax(pred_rew), -1)\<close>.\<close>

definition reward_loss :: "real list list \<Rightarrow> real list list \<Rightarrow> py_error + real list" where
  "reward_loss reward_target pred_rew =
     ebind (lookup_global ''F'') (\<lambda>_.
       Inr (map2 (\<lambda>t p. - sum_list (map2 (*) t p)) reward_target (map log_softmax pred_rew)))"

text \<open>
  Line 293: \<open>samples.is_weights if self.prioritize_replay else 1.\<close>; reading an attribute
  that the object does not have raises AttributeError.
\<close>

definition jump_is_weights :: "config \<Rightarrow> 'o samples \<Rightarrow> py_error + weights" where
  "jump_is_weights cfg s =
     (case prioritize_replay cfg of
        None \<Rightarrow> Inl (AttributeError ''prioritize_replay'')
      | Some b \<Rightarrow> Inr (if b then Vector (is_weights s) else Scalar 1))"

text \<open>
  Line 296, the reward target of jump \<open>j\<close>.  \<open>to_categorical\<close> (of
  \<open>src.model_trainer\<close>) is a parameter: rewards of shape \<open>[B]\<close> and the limit to
  distributions \<open>[B,R]\<close>.
\<close>

definition jump_reward_target ::
  "(real list \<Rightarrow> real \<Rightarrow> real list list) \<Rightarrow> 'o samples \<Rightarrow> nat \<Rightarrow> py_error + real list list" where
  "jump_reward_target to_categorical s j =
     ebind (index_at (all_reward s) 0) (\<lambda>rew. Inr (to_categorical rew 1))"

text \<open>Lines 283-301: the body of the loop at jump \<open>j\<close>.\<close>

definition jump ::
  "config \<Rightarrow> (real list \<Rightarrow> real \<Rightarrow> real list list) \<Rightarrow> ('o, 'l) agent \<Rightarrow> 'o samples \<Rightarrow> nat
     \<Rightarrow> 'l \<times> real list \<Rightarrow> py_error + 'l \<times> real list" where
  "jump cfg to_categorical ag s j st =
     (let (current_latent, model_loss) = st in
      ebind (index_at (all_action s) (j - 1)) (\<lambda>act_prev.
      let (current_latent, pred_rew) = step ag current_latent act_prev in
      ebind (index_at (all_action s) j) (\<lambda>act.
      ebind (index_at (returns s) j) (\<lambda>ret.
      ebind (index_at (done_n s) j) (\<lambda>dn.
      ebind (index_at (all_reward s) j) (\<lambda>rew.
      ebind (index_at (all_observation s) (j + n_step_return cfg)) (\<lambda>obs_n.
      ebind (index_at (all_action s) (j + n_step_return cfg - 1)) (\<lambda>act_n.
      ebind (index_at (all_reward s) (j + n_step_return cfg)) (\<lambda>rew_n.
      ebind (jump_is_weights cfg s) (\<lambda>w.
      ebind (index_at (dones s) (j + 1)) (\<lambda>d.
      ebind (rl_loss cfg ag current_latent act ret dn act rew obs_n act_n rew_n w d)
        (\<lambda>(jump_rl_loss, _).
      ebind (jump_reward_target to_categorical s j) (\<lambda>reward_target.
      let pred_rew = reward_predictor ag current_latent in
      ebind (reward_loss reward_target pred_rew) (\<lambda>rl.
        Inr (current_latent,
             map2 (\<lambda>m r. m + r + jump_rl_loss) model_loss rl)))))))))))))))"

text \<open>\<open>for j in range(1, self.jumps+1)\<close>: \<open>k\<close> jumps are left, the next one is \<open>j\<close>.\<close>

fun jump_loop ::
  "config \<Rightarrow> (real list \<Rightarrow> real \<Rightarrow> real list list) \<Rightarrow> ('o, 'l) agent \<Rightarrow> 'o samples \<Rightarrow> nat
     \<Rightarrow> nat \<Rightarrow> 'l \<times> real list \<Rightarrow> py_error + 'l \<times> real list" where
  "jump_loop cfg to_categorical ag s 0 j st = Inr st"
| "jump_loop cfg to_categorical ag s (Suc k) j st =
     ebind (jump cfg to_categorical ag s j st)
       (jump_loop cfg to_categorical ag s k (Suc j))"

text \<open>
  Lines 260-273: the latent of the step-0 observation, the step-0 reward and the RL loss
  on them.
\<close>

definition step0 ::
  "config \<Rightarrow> ('o, 'l) agent \<Rightarrow> 'o samples \<Rightarrow> py_error + 'l \<times> real list \<times> real \<times> real list" where
  "step0 cfg ag s =
     ebind (index_at (all_observation s) 1) (\<lambda>obs1.
     ebind (index_at (all_action s) 0) (\<lambda>act0.
     ebind (index_at (all_reward s) 0) (\<lambda>rew0.
     let conv_base = stem_forward ag obs1 act0 rew0 in
     ebind (index_at (all_action s) 1) (\<lambda>act1.
     ebind (index_at (returns s) 1) (\<lambda>ret1.
     ebind (index_at (done_n s) 1) (\<lambda>dn1.
     ebind (index_at (all_observation s) (n_step_return cfg + 1)) (\<lambda>obs_n.
     ebind (index_at (all_action s) (n_step_return cfg)) (\<lambda>act_n.
     ebind (index_at (all_reward s) (n_step_return cfg)) (\<lambda>rew_n.
     let w = (if prioritized_replay cfg then Vector (is_weights s) else Scalar 1) in
     ebind (index_at (dones s) 1) (\<lambda>d1.
     ebind (rl_loss cfg ag conv_base act1 ret1 dn1 act0 rew0 obs_n act_n rew_n w d1)
       (\<lambda>(rl_loss', KL). Inr (conv_base, rew0, rl_loss', KL))))))))))))"

text \<open>
  Lines 275-306.  \<open>detach\<close> leaves the values of the latent as they are.
\<close>

definition PizeroModelCategoricalDQN_loss ::
  "config \<Rightarrow> (real list \<Rightarrow> real \<Rightarrow> real list list) \<Rightarrow> ('o, 'l) agent \<Rightarrow> 'o samples
     \<Rightarrow> py_error + real \<times> real list \<times> real list" where
  "PizeroModelCategoricalDQN_loss cfg to_categorical ag s =
     ebind (step0 cfg ag s) (\<lambda>(conv_base, rew0, rl_loss', KL).
     let current_latent = conv_base;
         reward_target = to_categorical rew0 1;
         pred_rew = reward_predictor ag current_latent
     in
     ebind (reward_loss reward_target pred_rew) (\<lambda>model_loss.
     ebind (jump_loop cfg to_categorical ag s (jumps cfg) 1 (current_latent, model_loss))
       (\<lambda>(_, model_loss).
       let model_loss =
             (if prioritized_replay cfg then map2 (*) model_loss (is_weights s)
              else model_loss)
       in Inr (rl_loss', KL, model_loss))))"

subsection \<open>\<open>PizeroModelCategoricalDQN.optimize_agent\<close> (lines 141-189)\<close>

record opt_info =
  loss :: "real list"
  gradNorm :: "real list"
  tdAbsErr :: "real list"

text \<open>The effectful calls on collaborators, recorded in the order they are made.\<close>

datatype call =
    Append_samples
  | Optimizer_step
  | Model_optimizer_step
  | Update_batch_priorities
  | Update_target
  | Update_itr_hyperparams

text \<open>
  The collaborators (replay buffer, optimizers, inherited methods) as functions.
  \<open>optimizer_step\<close> stands for \<open>zero_grad\<close>, \<open>backward\<close>, \<open>clip_grad_norm_\<close> and
  \<open>step\<close> of the main optimizer on a batch: it gives the agent with its new parameters
  and the gradient norm; \<open>model_optimizer_step\<close> likewise for the transition model,
  \<open>joint_step\<close> for the single backward pass that steps both optimizers.
\<close>

record ('o, 'l, 's, 'sb, 'rb) collaborators =
  samples_to_buffer :: "'s \<Rightarrow> 'sb"
  append_samples :: "'rb \<Rightarrow> 'sb \<Rightarrow> 'rb"
  sample_batch :: "'rb \<Rightarrow> nat \<Rightarrow> 'o samples \<times> 'rb"
  update_batch_priorities :: "'rb \<Rightarrow> real list \<Rightarrow> 'rb"
  to_categorical :: "real list \<Rightarrow> real \<Rightarrow> real list list"
  joint_step :: "('o, 'l) agent \<Rightarrow> 'o samples \<Rightarrow> ('o, 'l) agent \<times> real"
  optimizer_step :: "('o, 'l) agent \<Rightarrow> 'o samples \<Rightarrow> ('o, 'l) agent \<times> real"
  model_optimizer_step :: "('o, 'l) agent \<Rightarrow> 'o samples \<Rightarrow> ('o, 'l) agent \<times> real"
  update_target :: "('o, 'l) agent \<Rightarrow> real \<Rightarrow> ('o, 'l) agent"
  update_itr_hyperparams :: "'rb \<Rightarrow> int \<Rightarrow> 'rb"

text \<open>The mutable state of \<open>self\<close>.\<close>

record ('o, 'l, 'rb) algo =
  agent :: "('o, 'l) agent"
  replay_buffer :: "'rb"
  update_counter :: nat
  calls :: "call list"

text \<open>\<open>td_abs_errors[::8]\<close>.\<close>

fun downsample :: "'a list \<Rightarrow> 'a list" where
  "downsample [] = []"
| "downsample (x # xs) = x # downsample (drop 7 xs)"

text \<open>
  Lines 159-178.  \<open>backward\<close> needs a tensor of one element; the result is the agent,
  the gradient norm, the calls made and \<open>loss.item()\<close>.
\<close>

definition gradient_update ::
  "config \<Rightarrow> ('o, 'l, 's, 'sb, 'rb) collaborators \<Rightarrow> ('o, 'l) agent \<Rightarrow> 'o samples \<Rightarrow> real
     \<Rightarrow> real list \<Rightarrow> py_error + ('o, 'l) agent \<times> real \<times> call list \<times> real" where
  "gradient_update cfg co ag smp l model_loss =
     (if \<not> detach_model cfg then
        (let lv = map (\<lambda>m. l + m) model_loss in
         if length lv \<noteq> 1 then Inl (RuntimeError ''backward'')
         else (let (ag, grad_norm) = joint_step co ag smp
               in Inr (ag, grad_norm, [Optimizer_step, Model_optimizer_step], hd lv)))
      else
        (let (ag, grad_norm) = optimizer_step co ag smp in
         if length model_loss \<noteq> 1 then Inl (RuntimeError ''backward'')
         else (let (ag, model_grad_norm) = model_optimizer_step co ag smp
               in Inr (ag, grad_norm, [Optimizer_step, Model_optimizer_step], l))))"

text \<open>Lines 157-187: one pass of the update loop.\<close>

definition update ::
  "config \<Rightarrow> ('o, 'l, 's, 'sb, 'rb) collaborators \<Rightarrow> ('o, 'l, 'rb) algo \<times> opt_info
     \<Rightarrow> py_error + ('o, 'l, 'rb) algo \<times> opt_info" where
  "update cfg co sto =
     (let (st, oi) = sto;
          (samples_from_replay, rb) = sample_batch co (replay_buffer st) (batch_size cfg)
      in
      ebind (PizeroModelCategoricalDQN_loss cfg (to_categorical co) (agent st)
               samples_from_replay) (\<lambda>(l, td_abs_errors, model_loss).
      ebind (gradient_update cfg co (agent st) samples_from_replay l model_loss)
        (\<lambda>(ag, grad_norm, cs, l).
        let (rb, cs) =
              (if prioritized_replay cfg
               then (update_batch_priorities co rb td_abs_errors, cs @ [Update_batch_priorities])
               else (rb, cs));
            oi = \<lparr>loss = loss oi @ [l], gradNorm = gradNorm oi @ [grad_norm],
                  tdAbsErr = tdAbsErr oi @ downsample td_abs_errors\<rparr>;
            uc = update_counter st + 1
        in
        if target_update_interval cfg = 0 then Inl ZeroDivisionError
        else
          (let (ag, cs) =
                 (if uc mod target_update_interval cfg = 0
                  then (update_target co ag (target_update_tau cfg), cs @ [Update_target])
                  else (ag, cs))
           in Inr (\<lparr>agent = ag, replay_buffer = rb, update_counter = uc,
                     calls = calls st @ cs\<rparr>, oi)))))"

text \<open>\<open>for _ in range(self.updates_per_optimize)\<close>.\<close>

fun updates ::
  "nat \<Rightarrow> config \<Rightarrow> ('o, 'l, 's, 'sb, 'rb) collaborators \<Rightarrow> ('o, 'l, 'rb) algo \<times> opt_info
     \<Rightarrow> py_error + ('o, 'l, 'rb) algo \<times> opt_info" where
  "updates 0 cfg co sto = Inr sto"
| "updates (Suc k) cfg co sto = ebind (update cfg co sto) (updates k cfg co)"

definition optimize_agent ::
  "config \<Rightarrow> ('o, 'l, 's, 'sb, 'rb) collaborators \<Rightarrow> ('o, 'l, 'rb) algo \<Rightarrow> int \<Rightarrow> 's option
     \<Rightarrow> int option \<Rightarrow> py_error + opt_info \<times> ('o, 'l, 'rb) algo" where
  "optimize_agent cfg co st itr smp sampler_itr =
     (let itr = (case sampler_itr of None \<Rightarrow> itr | Some si \<Rightarrow> si);
          st = (case smp of
                  None \<Rightarrow> st
                | Some x \<Rightarrow>
                    st\<lparr>replay_buffer :=
                         append_samples co (replay_buffer st) (samples_to_buffer co x),
                       calls := calls st @ [Append_samples]\<rparr>);
          info = \<lparr>loss = [], gradNorm = [], tdAbsErr = []\<rparr>
      in
      if itr < min_itr_learn cfg then Inr (info, st)
      else
        ebind (updates (updates_per_optimize cfg) cfg co (st, info)) (\<lambda>(st, info).
          Inr (info,
               st\<lparr>replay_buffer := update_itr_hyperparams co (replay_buffer st) itr,
                  calls := calls st @ [Update_itr_hyperparams]\<rparr>)))"

subsection \<open>What autograd records (lines 84-113 and 214-241)\<close>




subsection \<open>Concrete inputs\<close>

text \<open>
  A two-atom support on \<open>[0, 1]\<close>, a batch of one element over three time steps and
  networks with one action that always answer the distribution \<open>[1, 0]\<close>.
\<close>

definition cfg_w :: config where
  "cfg_w = \<lparr>V_min = 0, V_max = 1, n_atoms = 2, discount = 1, n_step_return = 1,
     double_dqn = False, prioritized_replay = False, prioritize_replay = None,
     mid_batch_reset = True, jumps = 0, detach_model = True, min_itr_learn = 0,
     updates_per_optimize = 1, batch_size = 1, target_update_interval = 1,
     target_update_tau = 1\<rparr>"

definition ag_w :: "(unit, unit) agent" where
  "ag_w = \<lparr>forward = (\<lambda>_ _ _. [[[1, 0]]]), target = (\<lambda>_ _ _. [[[1, 0]]]),
     stem_forward = (\<lambda>_ _ _. ()), head_forward = (\<lambda>_ _ _. [[[1, 0]]]),
     step = (\<lambda>_ _. ((), [[0]])), reward_predictor = (\<lambda>_. [[0]])\<rparr>"

definition s_w :: "unit samples" where
  "s_w = \<lparr>all_observation = [(), (), ()], all_action = [[0], [0], [0]],
     all_reward = [[0], [0], [0]], returns = [[0], [0], [0]],
     dones = [[False], [False], [False]], done_n = [[False], [False], [False]],
     is_weights = [1]\<rparr>"

text \<open>
  Networks with two actions on which the live and the target network disagree: the live
  one prefers action 0 (Q-values \<open>1/2\<close> and \<open>0\<close>), the target one action 1 (\<open>0\<close> and \<open>1\<close>).
\<close>

definition ag_d :: "(unit, unit) agent" where
  "ag_d = \<lparr>forward = (\<lambda>_ _ _. [[[1 / 2, 1 / 2], [1, 0]]]), target = (\<lambda>_ _ _. [[[1, 0], [0, 1]]]),
     stem_forward = (\<lambda>_ _ _. ()), head_forward = (\<lambda>_ _ _. [[[1 / 2, 1 / 2], [1, 0]]]),
     step = (\<lambda>_ _. ((), [[0]])), reward_predictor = (\<lambda>_. [[0]])\<rparr>"

text \<open>A replay buffer that only counts the batches appended to it.\<close>

definition co_w :: "(unit, unit, unit, unit, nat) collaborators" where
  "co_w = \<lparr>samples_to_buffer = (\<lambda>x. x), append_samples = (\<lambda>rb _. Suc rb),
     sample_batch = (\<lambda>rb _. (s_w, rb)), update_batch_priorities = (\<lambda>rb _. rb),
     to_categorical = (\<lambda>_ _. [[1]]), joint_step = (\<lambda>ag _. (ag, 0)),
     optimizer_step = (\<lambda>ag _. (ag, 0)), model_optimizer_step = (\<lambda>ag _. (ag, 0)),
     update_target = (\<lambda>ag _. ag), update_itr_hyperparams = (\<lambda>rb _. rb)\<rparr>"

definition st_w :: "(unit, unit, nat) algo" where
  "st_w = \<lparr>agent = ag_w, replay_buffer = 0, update_counter = 0, calls = []\<rparr>"

section \<open>Properties\<close>

subsection \<open>The projection\<close>

lemma clamp_range: "lo \<le> hi \<Longrightarrow> lo \<le> clamp x lo hi \<and> clamp x lo hi \<le> hi"
  by (simp add: clamp_def)

lemma linspace_map:
  "n \<noteq> 1 \<Longrightarrow> linspace a b n = map (\<lambda>i. a + real i * ((b - a) / (real n - 1))) [0..<n]"
  by (simp add: linspace_def)

lemma length_linspace: "length (linspace a b n) = n"
  by (simp add: linspace_def)

text \<open>
  The triangular kernels of a uniform grid are a partition of unity on the grid's range:
  a point between the atoms \<open>k\<close> and \<open>k + 1\<close> gives weight to these two only.
\<close>

lemma hat_sum:
  fixes lo hi x :: real and n :: nat
  assumes n: "2 \<le> n" and lh: "lo < hi" and x: "lo \<le> x" "x \<le> hi"
  shows "sum_list (map (\<lambda>zi. clamp (1 - \<bar>x - zi\<bar> / ((hi - lo) / (real n - 1))) 0 1)
           (linspace lo hi n)) = 1"
proof -
  define dz where "dz = (hi - lo) / (real n - 1)"
  have n1: "0 < real n - 1" using n by simp
  have dz: "0 < dz" using lh n1 by (simp add: dz_def)
  define t where "t = (x - lo) / dz"
  have xt: "x = lo + t * dz" using dz by (simp add: t_def)
  have t0: "0 \<le> t" using x dz by (simp add: t_def)
  have "hi - lo = (real n - 1) * dz" using n1 by (simp add: dz_def)
  then have "t * dz \<le> (real n - 1) * dz" using x xt by linarith
  then have tn: "t \<le> real n - 1" using dz by simp
  define k where "k = nat \<lfloor>t\<rfloor>"
  have k1: "real k \<le> t" using t0 by (simp add: k_def)
  have k2: "t < real k + 1" using t0 by (simp add: k_def)
  have kn: "k < n" using k1 tn by linarith
  have summand: "clamp (1 - \<bar>x - (lo + real i * dz)\<bar> / dz) 0 1 =
      (if i = k then 1 - (t - real k) else 0) + (if i = Suc k then t - real k else 0)" for i
  proof -
    have "\<bar>x - (lo + real i * dz)\<bar> = \<bar>t - real i\<bar> * dz"
      using dz by (simp add: xt abs_mult left_diff_distrib [symmetric])
    then have e: "\<bar>x - (lo + real i * dz)\<bar> / dz = \<bar>t - real i\<bar>" using dz by simp
    have c: "clamp (1 - \<bar>x - (lo + real i * dz)\<bar> / dz) 0 1
               = min (max (1 - \<bar>t - real i\<bar>) 0) 1"
      by (simp only: e clamp_def)
    consider "i = k" | "i = Suc k" | "i < k" | "Suc k < i" by linarith
    then show ?thesis
    proof cases
      case 1 then show ?thesis unfolding c using k1 k2 by simp
    next
      case 2 then show ?thesis unfolding c using k1 k2 by simp
    next
      case 3
      then have "real i + 1 \<le> real k" by linarith
      then show ?thesis unfolding c using 3 k1 by simp
    next
      case 4
      then have "real k + 2 \<le> real i" by linarith
      then show ?thesis unfolding c using 4 k2 by simp
    qed
  qed
  have "sum_list (map (\<lambda>zi. clamp (1 - \<bar>x - zi\<bar> / dz) 0 1) (linspace lo hi n))
      = (\<Sum>i = 0..<n. clamp (1 - \<bar>x - (lo + real i * dz)\<bar> / dz) 0 1)"
    using n by (simp add: linspace_map dz_def comp_def interv_sum_list_conv_sum_set_nat)
  also have "\<dots> = (\<Sum>i = 0..<n. if i = k then 1 - (t - real k) else 0)
                 + (\<Sum>i = 0..<n. if i = Suc k then t - real k else 0)"
    by (simp add: summand sum.distrib)
  also have "\<dots> = (1 - (t - real k)) + (if Suc k < n then t - real k else 0)"
    using kn by simp
  also have "\<dots> = 1"
  proof (cases "Suc k < n")
    case True then show ?thesis by simp
  next
    case False
    with kn have "real k = real n - 1" by (simp add: of_nat_diff)
    with tn k1 have "t = real k" by linarith
    then show ?thesis using False by simp
  qed
  finally show ?thesis by (simp add: dz_def)
qed

text \<open>Summing the projected row over the target atoms, the two sums change places.\<close>

lemma sum_rows_exchange:
  fixes h :: "real \<Rightarrow> real \<Rightarrow> real"
  shows "sum_list (map (\<lambda>c. sum_list (map2 (*) u c)) (map (\<lambda>zi. map (\<lambda>x. h x zi) row) zs))
       = sum_list (map2 (\<lambda>a x. a * sum_list (map (\<lambda>zi. h x zi) zs)) u row)"
proof (induction zs)
  case Nil
  then show ?case by simp
next
  case (Cons zi zs)
  have "sum_list (map2 (*) u (map (\<lambda>x. h x zi) row)) = sum_list (map2 (\<lambda>a x. a * h x zi) u row)"
    by (simp add: zip_map2 case_prod_unfold comp_def)
  then show ?case
    using Cons.IH
    by (simp add: case_prod_unfold distrib_left sum_list_addf)
qed

lemma sum_weighted_ones:
  fixes g :: "real \<Rightarrow> real"
  assumes "\<And>x. x \<in> set row \<Longrightarrow> g x = 1" and "length u \<le> length row"
  shows "sum_list (map2 (\<lambda>a x. a * g x) u row) = sum_list u"
proof -
  have "map2 (\<lambda>a x. a * g x) u row = map fst (zip u row)"
    using assms(1) by (auto dest: set_zip_rightD)
  then show ?thesis using assms(2) by (simp add: map_fst_zip_take)
qed

lemma length_next_z: "length (next_z cfg dn rn) = min (length rn) (length dn)"
  by (simp add: next_z_def ger_def Let_def)

lemma next_z_row:
  assumes "row \<in> set (next_z cfg dn rn)" and "V_min cfg \<le> V_max cfg"
  shows "length row = n_atoms cfg \<and> (\<forall>x \<in> set row. V_min cfg \<le> x \<and> x \<le> V_max cfg)"
proof -
  from assms(1) obtain r gr where
    "(r, gr) \<in> set (zip rn (ger (map (\<lambda>d. 1 - (if d then 1 else 0)) dn)
        (map (\<lambda>x. x * discount cfg ^ n_step_return cfg) (z cfg))))"
    and row: "row = map (\<lambda>x. clamp (r + x) (V_min cfg) (V_max cfg)) gr"
    by (auto simp: next_z_def Let_def)
  then have "gr \<in> set (ger (map (\<lambda>d. 1 - (if d then 1 else 0)) dn)
        (map (\<lambda>x. x * discount cfg ^ n_step_return cfg) (z cfg)))"
    by (auto dest: set_zip_rightD)
  then have "length gr = n_atoms cfg"
    by (auto simp: ger_def z_def length_linspace)
  then show ?thesis
    using clamp_range [OF assms(2)] by (auto simp: row)
qed

text \<open>
  C4: with at least two atoms and \<open>V_min < V_max\<close>, for every batch of returns and
  termination flags and every batch of unprojected distributions over the \<open>n_atoms\<close>
  atoms that sum to 1, the projection of lines 66-78 and 99 gives one distribution per
  batch element and each of them sums to 1: exactly over the reals, hence within
  \<open>1e-5\<close>.  Non-negativity of the input is not needed.
\<close>

theorem projection_mass_conservation:
  assumes "2 \<le> n_atoms cfg" and "V_min cfg < V_max cfg"
    and "delta_z cfg = Inr dz"
    and "length dn = length unproj" and "length rn = length unproj"
    and "\<forall>u \<in> set unproj. length u = n_atoms cfg \<and> sum_list u = 1"
  shows "length (project unproj (projection_coeffs cfg dz (next_z cfg dn rn)))
           = length unproj \<and>
         (\<forall>t \<in> set (project unproj (projection_coeffs cfg dz (next_z cfg dn rn))).
            sum_list t = 1 \<and> \<bar>sum_list t - 1\<bar> \<le> 1 / 100000)"
proof (rule conjI)
  show "length (project unproj (projection_coeffs cfg dz (next_z cfg dn rn)))
           = length unproj"
    using assms(4,5) by (simp add: project_def projection_coeffs_def length_next_z)
next
  show "\<forall>t \<in> set (project unproj (projection_coeffs cfg dz (next_z cfg dn rn))).
            sum_list t = 1 \<and> \<bar>sum_list t - 1\<bar> \<le> 1 / 100000"
  proof (rule ballI)
    fix t
    assume "t \<in> set (project unproj (projection_coeffs cfg dz (next_z cfg dn rn)))"
    then obtain u cs
      where ucs: "(u, cs) \<in> set (zip unproj (projection_coeffs cfg dz (next_z cfg dn rn)))"
        and t0: "t = map (\<lambda>c. sum_list (map2 (*) u c)) cs"
      unfolding project_def by auto
    from ucs have u: "u \<in> set unproj" by (rule set_zip_leftD)
    from ucs have "cs \<in> set (projection_coeffs cfg dz (next_z cfg dn rn))"
      by (rule set_zip_rightD)
    then obtain row where row: "row \<in> set (next_z cfg dn rn)"
      and cs: "cs = map (\<lambda>zi. map (\<lambda>x. clamp (1 - \<bar>x - zi\<bar> / dz) 0 1) row) (z cfg)"
      unfolding projection_coeffs_def by auto
    have t: "t = map (\<lambda>c. sum_list (map2 (*) u c))
                  (map (\<lambda>zi. map (\<lambda>x. clamp (1 - \<bar>x - zi\<bar> / dz) 0 1) row) (z cfg))"
      by (simp only: t0 cs)
    have dz: "dz = (V_max cfg - V_min cfg) / (real (n_atoms cfg) - 1)"
      using assms(1,3) by (simp add: delta_z_def split: if_splits)
    have r: "length row = n_atoms cfg"
      "\<And>x. x \<in> set row \<Longrightarrow> V_min cfg \<le> x \<and> x \<le> V_max cfg"
      using next_z_row [OF row] assms(2) by auto
    have "sum_list (map (\<lambda>zi. clamp (1 - \<bar>x - zi\<bar> / dz) 0 1) (z cfg)) = 1"
      if "x \<in> set row" for x
    proof -
      have "V_min cfg \<le> x" "x \<le> V_max cfg" using r(2) [OF that] by auto
      with assms(1,2) show ?thesis unfolding dz z_def by (rule hat_sum)
    qed
    moreover have "length u \<le> length row" using u assms(6) r(1) by simp
    ultimately have "sum_list t = sum_list u"
      unfolding t sum_rows_exchange by (rule sum_weighted_ones)
    then have "sum_list t = 1" using u assms(6) by simp
    then show "sum_list t = 1 \<and> \<bar>sum_list t - 1\<bar> \<le> 1 / 100000" by simp
  qed
qed

theorem projection_mass_conservation_witness:
  "2 \<le> n_atoms cfg_w \<and> V_min cfg_w < V_max cfg_w \<and> delta_z cfg_w = Inr 1 \<and>
   length [1 / 4, 3 / 4 :: real] = n_atoms cfg_w \<and> sum_list [1 / 4, 3 / 4 :: real] = 1 \<and>
   project [[1 / 4, 3 / 4]] (projection_coeffs cfg_w 1 (next_z cfg_w [False] [1 / 2]))
     = [[1 / 8, 7 / 8]] \<and>
   sum_list (hd (project [[1 / 4, 3 / 4]]
                   (projection_coeffs cfg_w 1 (next_z cfg_w [False] [1 / 2])))) = 1"
proof -
  have c: "2 \<le> n_atoms cfg_w" "V_min cfg_w < V_max cfg_w" "delta_z cfg_w = Inr 1"
    by (simp_all add: cfg_w_def delta_z_def)
  have p: "project [[1 / 4, 3 / 4]] (projection_coeffs cfg_w 1 (next_z cfg_w [False] [1 / 2]))
     = [[1 / 8, 7 / 8]]"
    by code_simp
  have u: "\<forall>u \<in> set [[1 / 4, 3 / 4 :: real]]. length u = n_atoms cfg_w \<and> sum_list u = 1"
    by (simp add: cfg_w_def)
  from projection_mass_conservation [OF c, of "[False]" "[[1 / 4, 3 / 4]]" "[1 / 2]"] u
  have "\<forall>t \<in> set (project [[1 / 4, 3 / 4]]
                      (projection_coeffs cfg_w 1 (next_z cfg_w [False] [1 / 2]))).
          sum_list t = 1"
    by simp
  then have "sum_list (hd (project [[1 / 4, 3 / 4]]
                   (projection_coeffs cfg_w 1 (next_z cfg_w [False] [1 / 2])))) = 1"
    by (simp add: p)
  then show ?thesis using c p u by simp
qed

subsection \<open>The scenario of the specification\<close>

lemma argmax_from_less: "best < i \<Longrightarrow> argmax_from best bv i xs < i + length xs"
proof (induction xs arbitrary: best bv i)
  case Nil
  then show ?case by simp
next
  case (Cons x xs)
  have "argmax_from i x (Suc i) xs < Suc i + length xs"
    by (rule Cons.IH) simp
  moreover have "argmax_from best bv (Suc i) xs < Suc i + length xs"
    by (rule Cons.IH) (use Cons.prems in simp)
  ultimately show ?case by simp
qed

lemma argmax_less: "xs \<noteq> [] \<Longrightarrow> argmax xs < length xs"
  using argmax_from_less [of 0 1] by (cases xs) (auto simp: argmax_def)

lemma linspace_11: "linspace (-10) 10 11 = [-10, -8, -6, -4, -2, 0, 2, 4, 6, 8, 10]"
  by code_simp

lemma z_scenario:
  "V_min cfg = -10 \<Longrightarrow> V_max cfg = 10 \<Longrightarrow> n_atoms cfg = 11
   \<Longrightarrow> z cfg = [-10, -8, -6, -4, -2, 0, 2, 4, 6, 8, 10]"
  by (simp add: z_def linspace_11)

lemma next_z_scenario:
  "V_min cfg = -10 \<Longrightarrow> V_max cfg = 10 \<Longrightarrow> n_atoms cfg = 11 \<Longrightarrow> discount cfg = 99 / 100
   \<Longrightarrow> n_step_return cfg = 1
   \<Longrightarrow> next_z cfg [False] [1] =
         [[-89 / 10, -692 / 100, -494 / 100, -296 / 100, -98 / 100, 1,
           298 / 100, 496 / 100, 694 / 100, 892 / 100, 10]]"
  by (simp add: next_z_def z_scenario ger_def clamp_def)

lemma project_scenario:
  "V_min cfg = -10 \<Longrightarrow> V_max cfg = 10 \<Longrightarrow> n_atoms cfg = 11 \<Longrightarrow> discount cfg = 99 / 100
   \<Longrightarrow> n_step_return cfg = 1
   \<Longrightarrow> project [[0, 0, 0, 0, 0, 1, 0, 0, 0, 0, 0]]
         (projection_coeffs cfg 2 (next_z cfg [False] [1]))
       = [[0, 0, 0, 0, 0, 1 / 2, 1 / 2, 0, 0, 0, 0]]"
  by (simp add: next_z_scenario z_scenario project_def projection_coeffs_def clamp_def)

lemma select_one: "a < length row \<Longrightarrow> select_at_indexes [a] [row] = Inr [row ! a]"
  by (simp add: select_at_indexes_def)

text \<open>
  C5: with \<open>V_min = -10\<close>, \<open>V_max = 10\<close>, 11 atoms (so that \<open>delta_z\<close> is 2), discount
  0.99, one-step returns and a batch of one element with return 1 and \<open>done_n\<close> unset,
  a target network that answers the one-hot distribution at index 5 for each of its
  \<open>A + 1\<close> actions is projected to weight \<open>1/2\<close> at index 5, \<open>1/2\<close> at index 6 and zero
  elsewhere, whatever the other settings and the live network's output \<open>f\<close> are.
\<close>

theorem projection_scenario:
  "delta_z (cfg\<lparr>V_min := -10, V_max := 10, n_atoms := 11, discount := 99 / 100,
             n_step_return := 1\<rparr>) = Inr 2 \<and>
   target_p (cfg\<lparr>V_min := -10, V_max := 10, n_atoms := 11, discount := 99 / 100,
             n_step_return := 1\<rparr>) 2 [False] [1]
       [replicate (Suc A) [0, 0, 0, 0, 0, 1, 0, 0, 0, 0, 0]] [map f [0..<Suc A]]
     = Inr [[0, 0, 0, 0, 0, 1 / 2, 1 / 2, 0, 0, 0, 0]]"
proof -
  define cfg' where "cfg' = cfg\<lparr>V_min := -10, V_max := 10, n_atoms := 11,
    discount := 99 / 100, n_step_return := 1\<rparr>"
  define oh :: "real list" where "oh = [0, 0, 0, 0, 0, 1, 0, 0, 0, 0, 0]"
  have c: "V_min cfg' = -10" "V_max cfg' = 10" "n_atoms cfg' = 11" "discount cfg' = 99 / 100"
    "n_step_return cfg' = 1"
    by (simp_all add: cfg'_def)
  obtain a where a: "next_a cfg' [map f [0..<Suc A]] [replicate (Suc A) oh] = [a]" "a < Suc A"
  proof (cases "double_dqn cfg'")
    case True
    have "argmax (map (\<lambda>p. dot p (z cfg')) (map f [0..<Suc A]))
            < length (map (\<lambda>p. dot p (z cfg')) (map f [0..<Suc A]))"
      by (rule argmax_less) simp
    with True that show ?thesis by (simp add: next_a_def del: upt_Suc)
  next
    case False
    have "argmax (map (\<lambda>p. dot p (z cfg')) (replicate (Suc A) oh))
            < length (map (\<lambda>p. dot p (z cfg')) (replicate (Suc A) oh))"
      by (rule argmax_less) simp
    with False that show ?thesis by (simp add: next_a_def del: replicate_Suc)
  qed
  have "select_at_indexes [a] [replicate (Suc A) oh] = Inr [oh]"
    using a(2) by (simp add: select_one del: replicate_Suc)
  then have "target_p cfg' 2 [False] [1] [replicate (Suc A) oh] [map f [0..<Suc A]]
      = Inr (project [oh] (projection_coeffs cfg' 2 (next_z cfg' [False] [1])))"
    by (simp add: target_p_def a(1) ebind_def Let_def del: replicate_Suc upt_Suc)
  moreover have "delta_z cfg' = Inr 2" by (simp add: delta_z_def c)
  ultimately show ?thesis
    unfolding cfg'_def [symmetric] oh_def [symmetric]
    by (simp add: project_scenario [OF c, folded oh_def])
qed

subsection \<open>The undefined name \<open>F\<close>\<close>

lemma F_unbound: "lookup_global ''F'' = Inl (NameError ''F'')"
  by (simp add: lookup_global_def module_globals_def)

lemma reward_loss_raises: "reward_loss t p = Inl (NameError ''F'')"
  by (simp add: reward_loss_def F_unbound ebind_def)

lemma step0_w: "\<exists>x. step0 cfg_w ag_w s_w = Inr x"
  by (simp add: step0_def cfg_w_def ag_w_def s_w_def index_at_def ebind_def rl_loss_def
      delta_z_def target_p_def select_at_indexes_def next_a_def argmax_def Let_def
      distributional_loss_def aggregate_def)

text \<open>
  C1: \<open>PizeroModelCategoricalDQN.loss\<close> never returns a triple, for any configuration
  (whatever \<open>jumps\<close> is), networks and batch.  The name \<open>F\<close> is not bound in the module,
  and whenever lines 260-273 complete (the stem and the step-0 RL loss) the call raises
  \<open>NameError\<close> for \<open>F\<close> at the step-0 reward-prediction term.
\<close>

theorem loss_raises_NameError:
  "(\<forall>r. PizeroModelCategoricalDQN_loss cfg to_cat ag s \<noteq> Inr r) \<and>
   ''F'' \<notin> set module_globals \<and>
   (\<forall>x. step0 cfg ag s = Inr x \<longrightarrow>
      PizeroModelCategoricalDQN_loss cfg to_cat ag s = Inl (NameError ''F''))"
proof (intro conjI allI impI)
  fix r
  show "PizeroModelCategoricalDQN_loss cfg to_cat ag s \<noteq> Inr r"
    by (cases "step0 cfg ag s")
       (simp_all add: PizeroModelCategoricalDQN_loss_def ebind_def reward_loss_raises
          split: prod.splits)
next
  show "''F'' \<notin> set module_globals"
    by (simp add: module_globals_def)
next
  fix x
  assume "step0 cfg ag s = Inr x"
  then show "PizeroModelCategoricalDQN_loss cfg to_cat ag s = Inl (NameError ''F'')"
    by (simp add: PizeroModelCategoricalDQN_loss_def ebind_def reward_loss_raises
          split: prod.splits)
qed

theorem loss_raises_NameError_witness:
  "(\<exists>x. step0 cfg_w ag_w s_w = Inr x) \<and>
   PizeroModelCategoricalDQN_loss cfg_w (\<lambda>r l. [[1]]) ag_w s_w = Inl (NameError ''F'')"
  using loss_raises_NameError [of cfg_w "\<lambda>r l. [[1]]" ag_w s_w] step0_w by blast

subsection \<open>The jump loop\<close>

text \<open>
  C2: the claim wants the reward target of jump \<open>j\<close> built from
  \<open>samples.all_reward[j]\<close>.  Line 296 builds it from \<open>samples.all_reward[0]\<close>: on a
  batch whose rewards are \<open>0\<close> at offset 0 and \<open>1\<close> at offset 1, the target of jump 1 is
  the categorical encoding of the reward \<open>0\<close>.
\<close>

theorem jump_reward_target_step0:
  "jump_reward_target to_cat (s\<lparr>all_reward := [[0], [1]]\<rparr>) 1 = Inr (to_cat [0] 1)"
  by (simp add: jump_reward_target_def index_at_def ebind_def)

text \<open>
  C3: the claim wants the jump's importance weights chosen by \<open>prioritized_replay\<close>.
  Line 293 reads the attribute \<open>prioritize_replay\<close> instead: with prioritized replay
  enabled, on an object as its constructor leaves it, the selection raises
  \<open>AttributeError\<close> and no weights are passed.
\<close>

theorem jump_is_weights_AttributeError:
  "jump_is_weights (cfg\<lparr>prioritized_replay := True, prioritize_replay := None\<rparr>) s
     = Inl (AttributeError ''prioritize_replay'')"
  by (simp add: jump_is_weights_def)

subsection \<open>The warm-up of \<open>optimize_agent\<close>\<close>

text \<open>
  C10: when the iteration of the call (\<open>sampler_itr\<close> if it is given, \<open>itr\<close> otherwise,
  line 149) is below \<open>min_itr_learn\<close>, \<open>optimize_agent\<close> returns an \<open>OptInfo\<close> of three
  empty lists.  The agent and the update counter are as before and no optimizer step,
  priority update or target update is called; samples that were supplied have been
  converted by \<open>samples_to_buffer\<close> and appended to the replay buffer.
\<close>

theorem optimize_agent_warm_up:
  assumes "(case sampler_itr of None \<Rightarrow> itr | Some si \<Rightarrow> si) < min_itr_learn cfg"
  shows "optimize_agent cfg co st itr smp sampler_itr =
     Inr (\<lparr>loss = [], gradNorm = [], tdAbsErr = []\<rparr>,
          case smp of
            None \<Rightarrow> st
          | Some x \<Rightarrow>
              st\<lparr>replay_buffer := append_samples co (replay_buffer st) (samples_to_buffer co x),
                 calls := calls st @ [Append_samples]\<rparr>)"
  using assms by (simp add: optimize_agent_def Let_def)

theorem optimize_agent_warm_up_witness:
  "(0::int) < 5 \<and>
   optimize_agent (cfg_w\<lparr>min_itr_learn := 5\<rparr>) co_w st_w 0 (Some ()) None =
     Inr (\<lparr>loss = [], gradNorm = [], tdAbsErr = []\<rparr>,
          \<lparr>agent = ag_w, replay_buffer = 1, update_counter = 0, calls = [Append_samples]\<rparr>)"
  using optimize_agent_warm_up [where sampler_itr = None and itr = 0
      and cfg = "cfg_w\<lparr>min_itr_learn := 5\<rparr>" and co = co_w and st = st_w and smp = "Some ()"]
  by (simp add: co_w_def st_w_def)

subsection \<open>The KL statistic\<close>

lemma clamp_EPS_bounds: "EPS \<le> clamp k EPS (1 / EPS) \<and> clamp k EPS (1 / EPS) \<le> 1 / EPS"
  by (rule clamp_range) (simp add: EPS_def)

lemma KL_div_bounds: "k \<in> set (KL_div tp p) \<Longrightarrow> EPS \<le> k \<and> k \<le> 1 / EPS"
  using clamp_EPS_bounds by (auto simp: KL_div_def)

lemma KL_sum_ge:
  assumes "length t = length q" and "\<forall>x \<in> set t. 0 < x" and "\<forall>x \<in> set q. 0 < x"
  shows "sum_list t - sum_list q \<le> KL_sum t q"
  using assms
proof (induction t q rule: list_induct2)
  case Nil
  then show ?case by (simp add: KL_sum_def)
next
  case (Cons a t b q)
  have ab: "0 < a" "0 < b" using Cons.prems by auto
  have "ln (b / a) \<le> b / a - 1" using ab by (intro ln_le_minus_one) simp
  then have "ln b - ln a \<le> b / a - 1" using ab by (simp add: ln_divide_pos)
  then have "a * (ln b - ln a) \<le> a * (b / a - 1)" using ab by (simp add: mult_le_cancel_left_pos)
  then have "a - b \<le> a * (ln a - ln b)" using ab by (simp add: algebra_simps)
  moreover have "sum_list t - sum_list q \<le> KL_sum t q" using Cons by simp
  ultimately show ?case by (simp add: KL_sum_def)
qed

lemma guard_ge: "\<forall>x \<in> set t. x \<le> 1 \<Longrightarrow> sum_list t \<le> sum_list (map (\<lambda>x. clamp x EPS 1) t)"
  by (induction t) (auto simp: clamp_def EPS_def add_mono)

lemma guard_id: "\<forall>x \<in> set q. EPS \<le> x \<and> x \<le> 1 \<Longrightarrow> map (\<lambda>x. clamp x EPS 1) q = q"
  by (induction q) (auto simp: clamp_def)

lemma guard_pos: "x \<in> set (map (\<lambda>x. clamp x EPS 1) t) \<Longrightarrow> 0 < x"
  by (auto simp: clamp_def EPS_def)

lemma dist_le_1:
  fixes t :: "real list"
  assumes "\<forall>x \<in> set t. 0 \<le> x" and "sum_list t = 1"
  shows "\<forall>x \<in> set t. x \<le> 1"
  using member_le_sum_list [of _ t] assms by (metis (no_types, lifting))

lemma KL_row_nonneg:
  assumes "length t = length q"
    and "\<forall>x \<in> set t. 0 \<le> x" and "sum_list t = 1"
    and "\<forall>x \<in> set q. EPS \<le> x" and "sum_list q = 1"
  shows "0 \<le> KL_sum (map (\<lambda>x. clamp x EPS 1) t) (map (\<lambda>x. clamp x EPS 1) q)"
proof -
  have q0: "\<forall>x \<in> set q. 0 \<le> x" using assms(4) by (auto simp: EPS_def intro: order_trans [rotated])
  have q1: "\<forall>x \<in> set q. x \<le> 1" using dist_le_1 [OF q0 assms(5)] .
  have t1: "\<forall>x \<in> set t. x \<le> 1" using dist_le_1 [OF assms(2,3)] .
  have qq: "map (\<lambda>x. clamp x EPS 1) q = q" using assms(4) q1 by (intro guard_id) auto
  have "sum_list (map (\<lambda>x. clamp x EPS 1) t) - sum_list q
          \<le> KL_sum (map (\<lambda>x. clamp x EPS 1) t) q"
  proof (rule KL_sum_ge)
    show "length (map (\<lambda>x. clamp x EPS 1) t) = length q" using assms(1) by simp
    show "\<forall>x \<in> set (map (\<lambda>x. clamp x EPS 1) t). 0 < x" using guard_pos by blast
    show "\<forall>x \<in> set q. 0 < x" using assms(4) by (auto simp: EPS_def intro: less_le_trans [rotated])
  qed
  moreover have "sum_list t \<le> sum_list (map (\<lambda>x. clamp x EPS 1) t)" using t1 by (rule guard_ge)
  ultimately show ?thesis using assms(3,5) by (simp add: qq)
qed

text \<open>
  C7, as the code has it: the value the clamp of line 113 produces lies in
  \<open>[EPS, 1/EPS]\<close>, for any two inputs.  The sum of lines 111-112 is taken on the
  NaN-guarded distributions, which need not sum to 1 any more; it is nonnegative for a
  valid target distribution and a valid predicted distribution that has no entry below
  \<open>EPS\<close>.
\<close>

theorem KL_statistic_range:
  assumes "\<forall>(t, q) \<in> set (zip tp p). length t = length q \<and> (\<forall>x \<in> set t. 0 \<le> x) \<and> sum_list t = 1
              \<and> (\<forall>x \<in> set q. EPS \<le> x) \<and> sum_list q = 1"
  shows "(\<forall>k \<in> set (KL_pre tp (nan_guard p)). 0 \<le> k) \<and>
         (\<forall>k \<in> set (KL_div tp' p'). EPS \<le> k \<and> k \<le> 1 / EPS)"
proof (rule conjI)
  show "\<forall>k \<in> set (KL_pre tp (nan_guard p)). 0 \<le> k"
  proof (rule ballI)
    fix k
    assume "k \<in> set (KL_pre tp (nan_guard p))"
    then obtain t q where tq: "(t, q) \<in> set (zip tp p)"
      and k: "k = KL_sum (map (\<lambda>x. clamp x EPS 1) t) (map (\<lambda>x. clamp x EPS 1) q)"
      by (auto simp: KL_pre_def nan_guard_def zip_map_map)
    from tq assms have "length t = length q \<and> (\<forall>x \<in> set t. 0 \<le> x) \<and> sum_list t = 1
              \<and> (\<forall>x \<in> set q. EPS \<le> x) \<and> sum_list q = 1"
      by blast
    then show "0 \<le> k" unfolding k by (intro KL_row_nonneg) simp_all
  qed
next
  show "\<forall>k \<in> set (KL_div tp' p'). EPS \<le> k \<and> k \<le> 1 / EPS"
    using KL_div_bounds by blast
qed

theorem KL_statistic_range_witness:
  "sum_list [1 / 2, 1 / 2 :: real] = 1 \<and> EPS \<le> 1 / 2 \<and>
   0 \<le> hd (KL_pre [[1 / 2, 1 / 2]] (nan_guard [[1 / 2, 1 / 2]])) \<and>
   EPS \<le> hd (KL_div [[1 / 2, 1 / 2]] [[1, 1 / 1000000]]) \<and>
   hd (KL_div [[1 / 2, 1 / 2]] [[1, 1 / 1000000]]) \<le> 1 / EPS"
proof -
  have e: "EPS \<le> 1 / 2" by (simp add: EPS_def)
  then have h: "\<forall>(t, q) \<in> set (zip [[1 / 2, 1 / 2 :: real]] [[1 / 2, 1 / 2 :: real]]).
      length t = length q \<and> (\<forall>x \<in> set t. 0 \<le> x) \<and> sum_list t = 1
        \<and> (\<forall>x \<in> set q. EPS \<le> x) \<and> sum_list q = 1"
    by simp
  have "set (KL_pre [[1 / 2, 1 / 2]] (nan_guard [[1 / 2, 1 / 2]]))
          = {hd (KL_pre [[1 / 2, 1 / 2]] (nan_guard [[1 / 2, 1 / 2]]))}"
    and "set (KL_div [[1 / 2, 1 / 2]] [[1, 1 / 1000000]])
          = {hd (KL_div [[1 / 2, 1 / 2]] [[1, 1 / 1000000]])}"
    by (simp_all add: KL_div_def KL_pre_def nan_guard_def)
  with KL_statistic_range [OF h, of "[[1 / 2, 1 / 2]]" "[[1, 1 / 1000000]]"] e
  show ?thesis by simp
qed

text \<open>
  C7 as stated fails: for the valid target distribution \<open>[1 - EPS, EPS]\<close> and the valid
  prediction \<open>[1, 0]\<close>, which the guard turns into \<open>[1, EPS]\<close>, the statistic before the
  clamp is \<open>(1 - EPS) * ln (1 - EPS)\<close>, a negative number.
\<close>

theorem KL_negative_counterexample:
  "sum_list [999999 / 1000000, 1 / 1000000 :: real] = 1 \<and> sum_list [1, 0 :: real] = 1 \<and>
   KL_pre [[999999 / 1000000, 1 / 1000000]] (nan_guard [[1, 0]]) ! 0 < 0"
proof -
  have "ln (999999 / 1000000 :: real) < 0" by (rule ln_less_zero) simp_all
  then have "(999999 / 1000000) * ln (999999 / 1000000 :: real) < 0"
    by (simp add: mult_less_0_iff)
  then show ?thesis
    by (simp add: KL_pre_def nan_guard_def KL_sum_def clamp_def EPS_def)
qed

subsection \<open>The mask over samples after a termination\<close>

lemma mask_done:
  "1 \<le> acc \<Longrightarrow> map (\<lambda>c. 1 - min c 1) (cumsum_from acc (map (\<lambda>d. if d then 1 else 0) ds))
     = replicate (length ds) 0"
  by (induction ds arbitrary: acc) auto

lemma mask_open:
  "map (\<lambda>c. 1 - min c 1) (cumsum_from 0 (map (\<lambda>d. if d then 1 else 0) ds))
     = replicate (length (takeWhile Not ds)) 1
       @ replicate (length ds - length (takeWhile Not ds)) 0"
  by (induction ds) (auto simp: mask_done)

lemma takeWhile_butlast:
  "length (takeWhile P (butlast xs)) = min (length xs - 1) (length (takeWhile P xs))"
proof (induction xs)
  case Nil
  then show ?case by simp
next
  case (Cons x xs)
  show ?case
  proof (cases xs)
    case Nil
    then show ?thesis by simp
  next
    case (Cons y ys)
    with Cons.IH show ?thesis by simp
  qed
qed

lemma valid_from_done_vector:
  assumes "ds \<noteq> []"
  shows "valid_from_done (T1 ds) =
     Inr (replicate (min (length ds) (Suc (length (takeWhile Not ds)))) 1
          @ replicate (length ds - min (length ds) (Suc (length (takeWhile Not ds)))) 0)"
proof -
  obtain n where n: "length ds = Suc n" using assms by (cases ds) auto
  define k where "k = length (takeWhile Not (butlast ds))"
  have k: "k = min n (length (takeWhile Not ds))"
    by (simp add: k_def takeWhile_butlast n)
  have "map (\<lambda>c. 1 - min c 1) (cumsum (butlast (map (\<lambda>d. if d then 1 else 0) ds)))
          = replicate k 1 @ replicate (n - k) 0"
    by (simp add: cumsum_def map_butlast [symmetric] mask_open k_def n)
  then have "valid_from_done (T1 ds) = Inr (replicate (Suc k) 1 @ replicate (n - k) 0)"
    by (simp add: Let_def n)
  moreover have "min (length ds) (Suc (length (takeWhile Not ds))) = Suc k"
    by (simp add: k n)
  ultimately show ?thesis by (simp add: n)
qed

lemma masked_product:
  fixes xs :: "real list"
  shows "length xs = m + r \<Longrightarrow>
     map2 (*) xs (replicate m 1 @ replicate r 0) = take m xs @ replicate r 0"
proof (induction xs arbitrary: m r)
  case Nil
  then show ?case by simp
next
  case (Cons x xs)
  show ?case
  proof (cases m)
    case 0
    with Cons.prems obtain r' where r: "r = Suc r'" "length xs = 0 + r'" by (cases r) auto
    with Cons.IH [of 0 r'] 0 show ?thesis by simp
  next
    case (Suc m')
    with Cons.prems have "length xs = m' + r" by simp
    with Cons.IH [of m' r] Suc show ?thesis by simp
  qed
qed

text \<open>
  With \<open>mid_batch_reset\<close> off, \<open>rl_loss\<close> hands \<open>valid_from_done\<close> a 0-dim tensor
  (line 244 indexes the vector it was given) and raises.
\<close>

lemma rl_loss_mask_raises:
  "\<not> mid_batch_reset cfg \<Longrightarrow>
   aggregate cfg ls KL (ebind (index_at d 1) (\<lambda>d1. Inr (T0 d1))) = Inl IndexError"
  by (simp add: aggregate_def ebind_def index_at_def)

text \<open>
  C6, as the code has it.  Let \<open>ds\<close> be the vector \<open>samples.done[1]\<close> and \<open>m\<close> the number
  of its entries up to and including the first set flag (all of them if none is set).
  With \<open>mid_batch_reset\<close> off, the loss is the sum of the first \<open>m\<close> per-sample losses
  divided by \<open>m\<close>, and the KL vector keeps its first \<open>m\<close> entries and is zero after them:
  the entry at the first set flag is still valid.  With \<open>mid_batch_reset\<close> on, the loss
  is the plain mean and the KL vector is returned as it is.
\<close>

theorem masking:
  assumes "length ls = length ds" and "length KL = length ds" and "ds \<noteq> []"
  shows "(\<not> mid_batch_reset cfg \<longrightarrow>
            aggregate cfg ls KL (Inr (T1 ds)) =
              Inr (sum_list (take (min (length ds) (Suc (length (takeWhile Not ds)))) ls)
                     / real (min (length ds) (Suc (length (takeWhile Not ds)))),
                   take (min (length ds) (Suc (length (takeWhile Not ds)))) KL
                   @ replicate (length ds - min (length ds) (Suc (length (takeWhile Not ds)))) 0))
       \<and> (mid_batch_reset cfg \<longrightarrow> aggregate cfg ls KL d = Inr (mean ls, KL))"
proof -
  define m where "m = min (length ds) (Suc (length (takeWhile Not ds)))"
  have len: "length ds = m + (length ds - m)" by (simp add: m_def)
  have v: "valid_from_done (T1 ds) = Inr (replicate m 1 @ replicate (length ds - m) 0)"
    unfolding m_def using assms(3) by (rule valid_from_done_vector)
  have l: "map2 (*) ls (replicate m 1 @ replicate (length ds - m) 0)
             = take m ls @ replicate (length ds - m) 0"
    using len assms(1) by (intro masked_product) simp
  have k: "map2 (*) KL (replicate m 1 @ replicate (length ds - m) 0)
             = take m KL @ replicate (length ds - m) 0"
    using len assms(2) by (intro masked_product) simp
  have "valid_mean ls (replicate m 1 @ replicate (length ds - m) 0)
          = sum_list (take m ls) / real m"
    by (simp add: valid_mean_def l sum_list_replicate)
  then show ?thesis
    unfolding m_def [symmetric]
    by (simp add: aggregate_def ebind_def v k del: valid_from_done.simps)
qed

theorem masking_witness:
  "aggregate (cfg_w\<lparr>mid_batch_reset := False\<rparr>) [1, 2, 3, 4] [5, 6, 7, 8]
       (Inr (T1 [False, False, True, False])) = Inr (2, [5, 6, 7, 0]) \<and>
   aggregate (cfg_w\<lparr>mid_batch_reset := True\<rparr>) [1, 2, 3, 4] [5, 6, 7, 8]
       (Inr (T1 [False, False, True, False])) = Inr (mean [1, 2, 3, 4], [5, 6, 7, 8])"
  using masking [where cfg = "cfg_w\<lparr>mid_batch_reset := False\<rparr>" and ls = "[1, 2, 3, 4]"
      and KL = "[5, 6, 7, 8]" and ds = "[False, False, True, False]"]
    masking [where cfg = "cfg_w\<lparr>mid_batch_reset := True\<rparr>" and ls = "[1, 2, 3, 4]"
      and KL = "[5, 6, 7, 8]" and ds = "[False, False, True, False]"
      and d = "Inr (T1 [False, False, True, False])"]
  by simp

text \<open>
  C6 as stated fails: with per-sample losses \<open>[1, 2, 3]\<close>, KL statistics \<open>[1, 1, 1]\<close>
  and the first flag set at position 1, the loss is \<open>3/2\<close>, the mean over positions 0
  and 1, where the mean over the positions before the flag is 1; and the KL entry at
  position 1 is 1, not 0.
\<close>

theorem masking_counterexample:
  "aggregate (cfg_w\<lparr>mid_batch_reset := False\<rparr>) [1, 2, 3] [1, 1, 1]
       (Inr (T1 [False, True, False])) = Inr (3 / 2, [1, 1, 0]) \<and>
   mean (take 1 [1, 2, 3]) = 1 \<and> [1, 1, 0 :: real] ! 1 \<noteq> 0"
  by (simp add: aggregate_def ebind_def Let_def cumsum_def valid_mean_def mean_def)

subsection \<open>What the loss functions return\<close>






lemma loss_result:
  assumes "delta_z cfg = Inr dz"
    and "n_step_return cfg + 1 < length (all_observation s)"
    and "n_step_return cfg < length (all_action s)" and "1 < length (all_action s)"
    and "n_step_return cfg < length (all_reward s)"
    and "1 < length (returns s)" and "1 < length (done_n s)" and "1 < length (dones s)"
    and "target_p cfg dz (done_n s ! 1) (returns s ! 1)
           (target ag (all_observation s ! (n_step_return cfg + 1))
              (all_action s ! n_step_return cfg) (all_reward s ! n_step_return cfg))
           (forward ag (all_observation s ! (n_step_return cfg + 1))
              (all_action s ! n_step_return cfg) (all_reward s ! n_step_return cfg)) = Inr tp"
    and "select_at_indexes (all_action s ! 1)
           (forward ag (all_observation s ! 1) (all_action s ! 0) (all_reward s ! 0)) = Inr p"
  shows "PizeroCategoricalDQN_loss cfg ag s =
           distributional_loss cfg tp p (Vector (is_weights s)) (Inr (T1 (dones s ! 1)))"
proof -
  have "all_action s \<noteq> []" "all_reward s \<noteq> []" using assms(4,5) by auto
  with assms show ?thesis
    by (simp add: PizeroCategoricalDQN_loss_def ebind_def index_at_def)
qed

subsection \<open>Importance weights\<close>

lemma map_sum_ebind: "map_sum id g (ebind m f) = ebind m (\<lambda>x. map_sum id g (f x))"
  by (cases m) (simp_all add: ebind_def)

lemma aggregate_KL:
  "map_sum id snd (aggregate cfg ls KL d) =
     (if mid_batch_reset cfg then Inr KL
      else ebind d (\<lambda>d. ebind (valid_from_done d) (\<lambda>valid. Inr (map2 (*) KL valid))))"
  by (simp add: aggregate_def map_sum_ebind)

lemma distributional_loss_KL:
  "map_sum id snd (distributional_loss cfg tp p w d) =
     (if mid_batch_reset cfg then Inr (KL_div tp (nan_guard p))
      else ebind d (\<lambda>d. ebind (valid_from_done d) (\<lambda>valid.
             Inr (map2 (*) (KL_div tp (nan_guard p)) valid))))"
  by (simp add: distributional_loss_def Let_def aggregate_KL)

lemma distributional_loss_weighted:
  assumes "prioritized_replay cfg"
  shows "distributional_loss cfg tp p (Vector ws) (Inr (T1 ds)) =
     (if mid_batch_reset cfg
      then Inr (mean (map2 (*) (losses tp (nan_guard p)) ws), KL_div tp (nan_guard p))
      else ebind (valid_from_done (T1 ds)) (\<lambda>valid.
             Inr (valid_mean (map2 (*) (losses tp (nan_guard p)) ws) valid,
                  map2 (*) (KL_div tp (nan_guard p)) valid)))"
  using assms
  by (simp add: distributional_loss_def Let_def aggregate_def times_weights_def ebind_def
        del: valid_from_done.simps)

lemma rl_loss_weighted:
  assumes "prioritized_replay cfg" and "delta_z cfg = Inr dz"
    and "target_p cfg dz dn rn (target ag ns npa npr) (forward ag ns npa npr) = Inr tp"
    and "select_at_indexes action (head_forward ag latent pa pr) = Inr p"
  shows "rl_loss cfg ag latent action rn dn pa pr ns npa npr (Vector ws) done' =
     (if mid_batch_reset cfg
      then Inr (mean (map2 (*) (losses tp (nan_guard p)) ws), KL_div tp (nan_guard p))
      else Inl IndexError)"
  using assms
  by (simp add: rl_loss_def ebind_def index_at_def distributional_loss_def Let_def
        aggregate_def times_weights_def)

lemma step0_weighted:
  assumes "prioritized_replay cfg" and "delta_z cfg = Inr dz"
    and "n_step_return cfg + 1 < length (all_observation s)"
    and "n_step_return cfg < length (all_action s)" and "1 < length (all_action s)"
    and "n_step_return cfg < length (all_reward s)"
    and "1 < length (returns s)" and "1 < length (done_n s)" and "1 < length (dones s)"
    and "target_p cfg dz (done_n s ! 1) (returns s ! 1)
           (target ag (all_observation s ! (n_step_return cfg + 1))
              (all_action s ! n_step_return cfg) (all_reward s ! n_step_return cfg))
           (forward ag (all_observation s ! (n_step_return cfg + 1))
              (all_action s ! n_step_return cfg) (all_reward s ! n_step_return cfg)) = Inr tp"
    and "select_at_indexes (all_action s ! 1)
           (head_forward ag
              (stem_forward ag (all_observation s ! 1) (all_action s ! 0) (all_reward s ! 0))
              (all_action s ! 0) (all_reward s ! 0)) = Inr h"
  shows "step0 cfg ag s =
     (if mid_batch_reset cfg
      then Inr (stem_forward ag (all_observation s ! 1) (all_action s ! 0) (all_reward s ! 0),
                all_reward s ! 0,
                mean (map2 (*) (losses tp (nan_guard h)) (is_weights s)),
                KL_div tp (nan_guard h))
      else Inl IndexError)"
proof -
  have ne: "all_action s \<noteq> []" "all_reward s \<noteq> []" using assms(5,6) by auto
  have "rl_loss cfg ag
          (stem_forward ag (all_observation s ! 1) (all_action s ! 0) (all_reward s ! 0))
          (all_action s ! 1) (returns s ! 1) (done_n s ! 1) (all_action s ! 0) (all_reward s ! 0)
          (all_observation s ! (n_step_return cfg + 1)) (all_action s ! n_step_return cfg)
          (all_reward s ! n_step_return cfg) (Vector (is_weights s)) (dones s ! 1) =
     (if mid_batch_reset cfg
      then Inr (mean (map2 (*) (losses tp (nan_guard h)) (is_weights s)), KL_div tp (nan_guard h))
      else Inl IndexError)"
    using assms(1,2,10,11) by (rule rl_loss_weighted)
  with assms(1,3-9) ne show ?thesis
    by (simp add: step0_def ebind_def index_at_def Let_def)
qed

lemma z_w: "z (cfg_w\<lparr>double_dqn := True\<rparr>) = [0, 1]" "z cfg_w = [0, 1]"
  "z (cfg_w\<lparr>prioritized_replay := True\<rparr>) = [0, 1]"
  by code_simp+

lemma coeffs_w:
  assumes "V_min cfg = 0" and "V_max cfg = 1" and "discount cfg = 1" and "z cfg = [0, 1]"
  shows "projection_coeffs cfg 1 (next_z cfg [False] [0]) = [[[1, 0], [0, 1]]]"
  using assms by (simp add: projection_coeffs_def next_z_def ger_def clamp_def)

lemma target_p_w:
  assumes "V_min cfg = 0" and "V_max cfg = 1" and "discount cfg = 1" and "z cfg = [0, 1]"
  shows "target_p cfg 1 [False] [0] [[[1, 0], [0, 1]]] [[[1 / 2, 1 / 2], [1, 0]]] =
           Inr [if double_dqn cfg then [1, 0] else [0, 1]]"
  using assms
  by (simp add: target_p_def coeffs_w next_a_def dot_def argmax_def select_at_indexes_def
        ebind_def project_def)

lemma losses_w: "losses [[0, 1]] (nan_guard [[1 / 2, 1 / 2]]) = [ln 2]"
  by (simp add: losses_def nan_guard_def clamp_def EPS_def ln_div)

text \<open>
  C9: with prioritized replay on and tensors of matching shapes,
  \<open>PizeroCategoricalDQN.loss\<close> returns the mean (the masked mean, without
  \<open>mid_batch_reset\<close>) of the per-sample cross-entropy losses multiplied entry by entry by
  \<open>samples.is_weights\<close>; \<open>rl_loss\<close> returns the mean of the per-sample losses multiplied
  by the weights it is given, and at its step-0 call (lines 263-273) these are
  \<open>samples.is_weights\<close>.  The returned KL vector is \<open>KL_div\<close> of the projected target and
  the guarded prediction: the weights do not occur in it, and it is the same for any two
  choices of the weights.
\<close>

theorem importance_weights:
  assumes "prioritized_replay cfg" and "delta_z cfg = Inr dz"
    and "n_step_return cfg + 1 < length (all_observation s)"
    and "n_step_return cfg < length (all_action s)" and "1 < length (all_action s)"
    and "n_step_return cfg < length (all_reward s)"
    and "1 < length (returns s)" and "1 < length (done_n s)" and "1 < length (dones s)"
    and "target_p cfg dz (done_n s ! 1) (returns s ! 1)
           (target ag (all_observation s ! (n_step_return cfg + 1))
              (all_action s ! n_step_return cfg) (all_reward s ! n_step_return cfg))
           (forward ag (all_observation s ! (n_step_return cfg + 1))
              (all_action s ! n_step_return cfg) (all_reward s ! n_step_return cfg)) = Inr tp"
    and "select_at_indexes (all_action s ! 1)
           (forward ag (all_observation s ! 1) (all_action s ! 0) (all_reward s ! 0)) = Inr p"
    and "select_at_indexes (all_action s ! 1)
           (head_forward ag
              (stem_forward ag (all_observation s ! 1) (all_action s ! 0) (all_reward s ! 0))
              (all_action s ! 0) (all_reward s ! 0)) = Inr h"
    and "valid_from_done (T1 (dones s ! 1)) = Inr valid"
    and "list_all2 (\<lambda>t q. length t = length q) tp p"
    and "list_all2 (\<lambda>t q. length t = length q) tp h"
    and "length (is_weights s) = length tp"
    and "target_p cfg dz dn rn (target ag ns npa npr) (forward ag ns npa npr) = Inr tq"
    and "select_at_indexes action (head_forward ag latent pa pr) = Inr q"
    and "list_all2 (\<lambda>t q. length t = length q) tq q" and "length ws = length tq"
  shows
    "PizeroCategoricalDQN_loss cfg ag s =
       (if mid_batch_reset cfg
        then Inr (mean (map2 (*) (losses tp (nan_guard p)) (is_weights s)),
                  KL_div tp (nan_guard p))
        else Inr (valid_mean (map2 (*) (losses tp (nan_guard p)) (is_weights s)) valid,
                  map2 (*) (KL_div tp (nan_guard p)) valid)) \<and>
     rl_loss cfg ag latent action rn dn pa pr ns npa npr (Vector ws) done' =
       (if mid_batch_reset cfg
        then Inr (mean (map2 (*) (losses tq (nan_guard q)) ws), KL_div tq (nan_guard q))
        else Inl IndexError) \<and>
     step0 cfg ag s =
       (if mid_batch_reset cfg
        then Inr (stem_forward ag (all_observation s ! 1) (all_action s ! 0) (all_reward s ! 0),
                  all_reward s ! 0,
                  mean (map2 (*) (losses tp (nan_guard h)) (is_weights s)),
                  KL_div tp (nan_guard h))
        else Inl IndexError) \<and>
     map_sum id snd (PizeroCategoricalDQN_loss cfg ag (s\<lparr>is_weights := ws\<rparr>)) =
       map_sum id snd (PizeroCategoricalDQN_loss cfg ag (s\<lparr>is_weights := ws'\<rparr>)) \<and>
     map_sum id snd (rl_loss cfg ag latent action rn dn pa pr ns npa npr w done') =
       map_sum id snd (rl_loss cfg ag latent action rn dn pa pr ns npa npr w' done')"
proof (intro conjI)
  have "PizeroCategoricalDQN_loss cfg ag s =
          distributional_loss cfg tp p (Vector (is_weights s)) (Inr (T1 (dones s ! 1)))"
    using assms(2-11) by (rule loss_result)
  then show "PizeroCategoricalDQN_loss cfg ag s =
       (if mid_batch_reset cfg
        then Inr (mean (map2 (*) (losses tp (nan_guard p)) (is_weights s)),
                  KL_div tp (nan_guard p))
        else Inr (valid_mean (map2 (*) (losses tp (nan_guard p)) (is_weights s)) valid,
                  map2 (*) (KL_div tp (nan_guard p)) valid))"
    using assms(1,13) by (simp add: distributional_loss_weighted ebind_def)
  show "rl_loss cfg ag latent action rn dn pa pr ns npa npr (Vector ws) done' =
       (if mid_batch_reset cfg
        then Inr (mean (map2 (*) (losses tq (nan_guard q)) ws), KL_div tq (nan_guard q))
        else Inl IndexError)"
    using assms(1,2,17,18) by (rule rl_loss_weighted)
  show "step0 cfg ag s =
       (if mid_batch_reset cfg
        then Inr (stem_forward ag (all_observation s ! 1) (all_action s ! 0) (all_reward s ! 0),
                  all_reward s ! 0,
                  mean (map2 (*) (losses tp (nan_guard h)) (is_weights s)),
                  KL_div tp (nan_guard h))
        else Inl IndexError)"
    using assms(1-10,12) by (rule step0_weighted)
  show "map_sum id snd (PizeroCategoricalDQN_loss cfg ag (s\<lparr>is_weights := ws\<rparr>)) =
           map_sum id snd (PizeroCategoricalDQN_loss cfg ag (s\<lparr>is_weights := ws'\<rparr>))"
    by (simp add: PizeroCategoricalDQN_loss_def map_sum_ebind distributional_loss_KL)
  show "map_sum id snd (rl_loss cfg ag latent action rn dn pa pr ns npa npr w done') =
           map_sum id snd (rl_loss cfg ag latent action rn dn pa pr ns npa npr w' done')"
    by (simp add: rl_loss_def map_sum_ebind distributional_loss_KL)
qed

theorem importance_weights_witness:
  "prioritized_replay (cfg_w\<lparr>prioritized_replay := True\<rparr>) \<and>
   delta_z (cfg_w\<lparr>prioritized_replay := True\<rparr>) = Inr 1 \<and>
   PizeroCategoricalDQN_loss (cfg_w\<lparr>prioritized_replay := True\<rparr>) ag_d
       (s_w\<lparr>is_weights := [2]\<rparr>) =
     Inr (2 * ln 2, KL_div [[0, 1]] (nan_guard [[1 / 2, 1 / 2]])) \<and>
   rl_loss (cfg_w\<lparr>prioritized_replay := True\<rparr>) ag_d () [0] [0] [False] [0] [0] () [0] [0]
       (Vector [2]) [False] =
     Inr (2 * ln 2, KL_div [[0, 1]] (nan_guard [[1 / 2, 1 / 2]])) \<and>
   step0 (cfg_w\<lparr>prioritized_replay := True\<rparr>) ag_d (s_w\<lparr>is_weights := [2]\<rparr>) =
     Inr ((), [0], 2 * ln 2, KL_div [[0, 1]] (nan_guard [[1 / 2, 1 / 2]]))"
proof -
  define c where "c = cfg_w\<lparr>prioritized_replay := True\<rparr>"
  define s where "s = s_w\<lparr>is_weights := [2]\<rparr>"
  have zc: "z c = [0, 1]" by (simp add: c_def z_w)
  have c: "prioritized_replay c" "delta_z c = Inr 1" "mid_batch_reset c" "\<not> double_dqn c"
    "n_step_return c = 1" "V_min c = 0" "V_max c = 1" "discount c = 1"
    by (simp_all add: c_def cfg_w_def delta_z_def)
  have tp: "target_p c 1 [False] [0] [[[1, 0], [0, 1]]] [[[1 / 2, 1 / 2], [1, 0]]] = Inr [[0, 1]]"
    using target_p_w [of c] c zc by simp
  have sel: "select_at_indexes [0] [[[1 / 2, 1 / 2], [1, 0 :: real]]] = Inr [[1 / 2, 1 / 2]]"
    by (simp add: select_at_indexes_def)
  have m: "mean (map2 (*) (losses [[0, 1]] (nan_guard [[1 / 2, 1 / 2]])) [2]) = 2 * ln 2"
    by (simp add: losses_w mean_def)
  from importance_weights [where cfg = c and dz = 1 and s = s and ag = ag_d
      and tp = "[[0, 1]]" and p = "[[1 / 2, 1 / 2]]" and h = "[[1 / 2, 1 / 2]]"
      and valid = "[1]" and dn = "[False]" and rn = "[0]" and ns = "()" and npa = "[0]"
      and npr = "[0]" and tq = "[[0, 1]]" and action = "[0]" and latent = "()" and pa = "[0]"
      and pr = "[0]" and q = "[[1 / 2, 1 / 2]]" and ws = "[2]" and done' = "[False]"]
  show ?thesis
    unfolding c_def [symmetric] s_def [symmetric]
    using c tp sel m
    by (simp add: s_def s_w_def ag_d_def Let_def cumsum_def)
qed


subsection \<open>The next action\<close>





end
